theory Spec2Isabelle
  imports Main
begin

section \<open>The module ibm\_svc\_info: data model\<close>

text \<open>
  The module \<^verbatim>\<open>plugins/modules/ibm_svc_info.py\<close> gathers lists of storage entities
  from an IBM Spectrum Virtualize system. Records returned by the REST client are opaque
  to the module, so their type is the parameter \<open>'r\<close>.

  A call \<^verbatim>\<open>restapi.svc_obj_info(cmd=c, cmdopts=None, cmdargs=None)\<close> either returns a
  list of records (\<open>Inr\<close>) or raises an exception \<^verbatim>\<open>e\<close>; the module only ever reads
  \<^verbatim>\<open>str(e)\<close>, which is what \<open>Inl\<close> carries. The client class \<^verbatim>\<open>IBMSVCRestApi\<close> lives
  outside this module, so its behaviour is a parameter of the model: a function from the
  command name to the response.
\<close>

type_synonym 'r response = "string + 'r list"

text \<open>
  The parameters of the module that it reads or declares: the arguments of the task with
  the defaults filled in. They become \<^verbatim>\<open>module.params\<close> when the argument
  specification accepts them.
\<close>

record params =
  name :: string
  state :: string
  gather_subset :: "string list"
  clustername :: string
  domain :: "string option"
  username :: string
  password :: string
  validate_certs :: bool
  log_path :: "string option"

text \<open>
  The object built by \<^verbatim>\<open>IBMSVCGatherInfo.__init__\<close>: \<^verbatim>\<open>self.module.params\<close>,
  \<^verbatim>\<open>self.name\<close> and \<^verbatim>\<open>self.restapi\<close>. (\<^verbatim>\<open>self.log\<close> is the destination of the
  log entries, kept in the world below.)
\<close>

record 'r IBMSVCGatherInfo =
  module_params :: params
  self_name :: string
  restapi :: "string \<Rightarrow> 'r response"

text \<open>
  What the module does to the outside: the commands it sends to the REST client and the
  entries it writes to its log, both oldest first. A log call keeps its format string and
  its arguments apart, as \<^verbatim>\<open>log.info(fmt, a, b)\<close> does; \<^verbatim>\<open>log.error(msg)\<close> is called
  with the very tuple that is passed to \<^verbatim>\<open>fail_json\<close>.
\<close>

datatype log_arg = Num nat | Str string

type_synonym fail_msg = "string \<times> string \<times> string"

datatype log_entry = Info string "log_arg list" | Error fail_msg

record world =
  issued :: "string list"
  logged :: "log_entry list"

text \<open>
  Both \<^verbatim>\<open>module.exit_json(**kwargs)\<close> and \<^verbatim>\<open>module.fail_json(msg=...)\<close> end the
  process (they report to the framework and call \<^verbatim>\<open>sys.exit\<close>). The keyword arguments
  of \<^verbatim>\<open>exit_json\<close> are an association list in the order they are written.

  In the getters \<^verbatim>\<open>msg\<close> is built with commas, not with \<^verbatim>\<open>%\<close>: it is a 3-tuple of the
  format string, the cluster name and \<^verbatim>\<open>str(e)\<close>, and that tuple is what
  \<^verbatim>\<open>fail_json\<close> receives.
\<close>

text \<open>
  \<^verbatim>\<open>AnsibleModule(argument_spec=...)\<close> checks the arguments against the specification
  and calls \<^verbatim>\<open>fail_json\<close> itself when it rejects them. The wording of that message is
  the framework's; the model keeps the names of the rejected parameters.
\<close>

datatype 'r exit =
    Exit_json "(string \<times> 'r list) list"
  | Fail_json fail_msg
  | Fail_arguments "string list"

text \<open>
  A piece of module code runs in a world and either returns a value (\<open>Inr\<close>) or has ended
  the process (\<open>Inl\<close>); nothing after an exit is executed.
\<close>

type_synonym ('r, 'a) act = "world \<Rightarrow> ('r exit + 'a) \<times> world"

definition return_act :: "'a \<Rightarrow> ('r, 'a) act" where
  "return_act v w = (Inr v, w)"

definition bind_act :: "('r, 'a) act \<Rightarrow> ('a \<Rightarrow> ('r, 'b) act) \<Rightarrow> ('r, 'b) act" where
  "bind_act m f w = (case m w of (Inl x, w') \<Rightarrow> (Inl x, w') | (Inr v, w') \<Rightarrow> f v w')"

definition exit_json :: "(string \<times> 'r list) list \<Rightarrow> ('r, 'a) act" where
  "exit_json kwargs w = (Inl (Exit_json kwargs), w)"

definition fail_json :: "fail_msg \<Rightarrow> ('r, 'a) act" where
  "fail_json msg w = (Inl (Fail_json msg), w)"

definition log_info :: "string \<Rightarrow> log_arg list \<Rightarrow> world \<Rightarrow> world" where
  "log_info fmt args w = w\<lparr>logged := logged w @ [Info fmt args]\<rparr>"

definition log_error :: "fail_msg \<Rightarrow> world \<Rightarrow> world" where
  "log_error msg w = w\<lparr>logged := logged w @ [Error msg]\<rparr>"

definition svc_obj_info :: "'r IBMSVCGatherInfo \<Rightarrow> string \<Rightarrow> world \<Rightarrow> 'r response \<times> world" where
  "svc_obj_info self cmd w = (restapi self cmd, w\<lparr>issued := issued w @ [cmd]\<rparr>)"

section \<open>The module's code\<close>

subsection \<open>\_\_init\_\_\<close>

text \<open>
  The \<^verbatim>\<open>choices\<close> that \<^verbatim>\<open>__init__\<close> adds to the argument specification for
  \<^verbatim>\<open>state\<close> and for the elements of \<^verbatim>\<open>gather_subset\<close>, and the parameters that
  \<^verbatim>\<open>AnsibleModule\<close> rejects because of them. (\<^verbatim>\<open>name\<close> is required; the record always
  has one.)
\<close>

definition state_choices :: "string list" where
  "state_choices = [''info'']"

definition gather_subset_choices :: "string list" where
  "gather_subset_choices =
     [''vol'', ''pool'', ''node'', ''iog'', ''host'', ''hc'', ''fc'', ''fcport'',
      ''targetportfc'', ''iscsiport'', ''fcmap'', ''fcconsistgrp'', ''vdiskcopy'',
      ''array'', ''system'', ''all'']"

definition rejected_arguments :: "params \<Rightarrow> string list" where
  "rejected_arguments p =
     (if state p \<in> set state_choices then [] else [''state'']) @
     (if list_all (\<lambda>l. l \<in> set gather_subset_choices) (gather_subset p) then []
      else [''gather_subset''])"

text \<open>
  What \<^verbatim>\<open>__init__\<close> does once \<^verbatim>\<open>AnsibleModule\<close> has accepted the arguments: it keeps
  the module with its parameters, \<^verbatim>\<open>self.name\<close> and the REST client.
\<close>

definition construct :: "params \<Rightarrow> (string \<Rightarrow> 'r response) \<Rightarrow> 'r IBMSVCGatherInfo" where
  "construct p client = \<lparr>module_params = p, self_name = name p, restapi = client\<rparr>"

text \<open>
  \<^verbatim>\<open>__init__\<close>: the process ends in \<^verbatim>\<open>AnsibleModule\<close> when an argument is rejected
  (before the logger and the REST client exist); otherwise the object is built.
\<close>

definition init :: "params \<Rightarrow> (string \<Rightarrow> 'r response) \<Rightarrow> 'r exit + 'r IBMSVCGatherInfo" where
  "init p client =
     (if rejected_arguments p = [] then Inr (construct p client)
      else Inl (Fail_arguments (rejected_arguments p)))"

subsection \<open>The fifteen getters\<close>

definition get_volumes_list :: "'r IBMSVCGatherInfo \<Rightarrow> ('r, 'r list) act" where
  "get_volumes_list self w =
     (case svc_obj_info self ''lsvdisk'' w of
        (Inr vols, w1) \<Rightarrow>
          (Inr vols,
           log_info ''Successfully listed %d volumes from array %s''
             [Num (length vols), Str (clustername (module_params self))] w1)
      | (Inl e, w1) \<Rightarrow>
          (let msg = (''Get Volumes from array %s failed with error %s '',
                      clustername (module_params self), e)
           in fail_json msg (log_error msg w1)))"

definition get_pools_list :: "'r IBMSVCGatherInfo \<Rightarrow> ('r, 'r list) act" where
  "get_pools_list self w =
     (case svc_obj_info self ''lsmdiskgrp'' w of
        (Inr pools, w1) \<Rightarrow>
          (Inr pools,
           log_info ''Successfully listed %d pools from array %s''
             [Num (length pools), Str (clustername (module_params self))] w1)
      | (Inl e, w1) \<Rightarrow>
          (let msg = (''Get Pools from array %s failed with error %s '',
                      clustername (module_params self), e)
           in fail_json msg (log_error msg w1)))"

definition get_nodes_list :: "'r IBMSVCGatherInfo \<Rightarrow> ('r, 'r list) act" where
  "get_nodes_list self w =
     (case svc_obj_info self ''lsnode'' w of
        (Inr nodes, w1) \<Rightarrow>
          (Inr nodes,
           log_info ''Successfully listed %d pools from array %s''
             [Num (length nodes), Str (clustername (module_params self))] w1)
      | (Inl e, w1) \<Rightarrow>
          (let msg = (''Get Nodes from array %s failed with error %s '',
                      clustername (module_params self), e)
           in fail_json msg (log_error msg w1)))"

definition get_hosts_list :: "'r IBMSVCGatherInfo \<Rightarrow> ('r, 'r list) act" where
  "get_hosts_list self w =
     (case svc_obj_info self ''lshost'' w of
        (Inr hosts, w1) \<Rightarrow>
          (Inr hosts,
           log_info ''Successfully listed %d hosts from array %s''
             [Num (length hosts), Str (clustername (module_params self))] w1)
      | (Inl e, w1) \<Rightarrow>
          (let msg = (''Get Hosts from array %s failed with error %s '',
                      clustername (module_params self), e)
           in fail_json msg (log_error msg w1)))"

definition get_iogroups_list :: "'r IBMSVCGatherInfo \<Rightarrow> ('r, 'r list) act" where
  "get_iogroups_list self w =
     (case svc_obj_info self ''lsiogrp'' w of
        (Inr iogrps, w1) \<Rightarrow>
          (Inr iogrps,
           log_info ''Successfully listed %d hosts from array %s''
             [Num (length iogrps), Str (clustername (module_params self))] w1)
      | (Inl e, w1) \<Rightarrow>
          (let msg = (''Get IO Groups from array %s failed with error %s '',
                      clustername (module_params self), e)
           in fail_json msg (log_error msg w1)))"

definition get_host_clusters_list :: "'r IBMSVCGatherInfo \<Rightarrow> ('r, 'r list) act" where
  "get_host_clusters_list self w =
     (case svc_obj_info self ''lshostcluster'' w of
        (Inr hcs, w1) \<Rightarrow>
          (Inr hcs,
           log_info ''Successfully listed %d host clusters from array %s''
             [Num (length hcs), Str (clustername (module_params self))] w1)
      | (Inl e, w1) \<Rightarrow>
          (let msg = (''Get Host Cluster from array %s failed with error %s '',
                      clustername (module_params self), e)
           in fail_json msg (log_error msg w1)))"

definition get_fc_connectivity_list :: "'r IBMSVCGatherInfo \<Rightarrow> ('r, 'r list) act" where
  "get_fc_connectivity_list self w =
     (case svc_obj_info self ''lsfabric'' w of
        (Inr fc, w1) \<Rightarrow>
          (Inr fc,
           log_info ''Successfully listed %d fc connectivity from array %s''
             [Num (length fc), Str (clustername (module_params self))] w1)
      | (Inl e, w1) \<Rightarrow>
          (let msg = (''Get FC Connectivity from array %s failed with error %s '',
                      clustername (module_params self), e)
           in fail_json msg (log_error msg w1)))"

definition get_fc_ports_list :: "'r IBMSVCGatherInfo \<Rightarrow> ('r, 'r list) act" where
  "get_fc_ports_list self w =
     (case svc_obj_info self ''lsportfc'' w of
        (Inr fcports, w1) \<Rightarrow>
          (Inr fcports,
           log_info ''Successfully listed %d fc ports from array %s''
             [Num (length fcports), Str (clustername (module_params self))] w1)
      | (Inl e, w1) \<Rightarrow>
          (let msg = (''Get fc ports from array %s failed with error %s '',
                      clustername (module_params self), e)
           in fail_json msg (log_error msg w1)))"

definition get_target_port_fc_list :: "'r IBMSVCGatherInfo \<Rightarrow> ('r, 'r list) act" where
  "get_target_port_fc_list self w =
     (case svc_obj_info self ''lstargetportfc'' w of
        (Inr targetportfc, w1) \<Rightarrow>
          (Inr targetportfc,
           log_info ''Successfully listed %d target port fc from array %s''
             [Num (length targetportfc), Str (clustername (module_params self))] w1)
      | (Inl e, w1) \<Rightarrow>
          (let msg = (''Get target port fc from array %s failed with error %s '',
                      clustername (module_params self), e)
           in fail_json msg (log_error msg w1)))"

definition get_iscsi_ports_list :: "'r IBMSVCGatherInfo \<Rightarrow> ('r, 'r list) act" where
  "get_iscsi_ports_list self w =
     (case svc_obj_info self ''lsportip'' w of
        (Inr ipports, w1) \<Rightarrow>
          (Inr ipports,
           log_info ''Successfully listed %d iscsi ports from array %s''
             [Num (length ipports), Str (clustername (module_params self))] w1)
      | (Inl e, w1) \<Rightarrow>
          (let msg = (''Get iscsi ports from array %s failed with error %s '',
                      clustername (module_params self), e)
           in fail_json msg (log_error msg w1)))"

definition get_fc_map_list :: "'r IBMSVCGatherInfo \<Rightarrow> ('r, 'r list) act" where
  "get_fc_map_list self w =
     (case svc_obj_info self ''lsfcmap'' w of
        (Inr fcmaps, w1) \<Rightarrow>
          (Inr fcmaps,
           log_info ''Successfully listed %d fc maps from array %s''
             [Num (length fcmaps), Str (clustername (module_params self))] w1)
      | (Inl e, w1) \<Rightarrow>
          (let msg = (''Get fc maps from array %s failed with error %s '',
                      clustername (module_params self), e)
           in fail_json msg (log_error msg w1)))"

definition get_array_list :: "'r IBMSVCGatherInfo \<Rightarrow> ('r, 'r list) act" where
  "get_array_list self w =
     (case svc_obj_info self ''lsarray'' w of
        (Inr array, w1) \<Rightarrow>
          (Inr array,
           log_info ''Successfully listed %d array info from array %s''
             [Num (length array), Str (clustername (module_params self))] w1)
      | (Inl e, w1) \<Rightarrow>
          (let msg = (''Get Array info from array %s failed with error %s '',
                      clustername (module_params self), e)
           in fail_json msg (log_error msg w1)))"

definition get_system_list :: "'r IBMSVCGatherInfo \<Rightarrow> ('r, 'r list) act" where
  "get_system_list self w =
     (case svc_obj_info self ''lssystem'' w of
        (Inr system, w1) \<Rightarrow>
          (Inr system,
           log_info ''Successfully listed %d system info from array %s''
             [Num (length system), Str (clustername (module_params self))] w1)
      | (Inl e, w1) \<Rightarrow>
          (let msg = (''Get System info from array %s failed with error %s '',
                      clustername (module_params self), e)
           in fail_json msg (log_error msg w1)))"

definition get_fcconsistgrp_list :: "'r IBMSVCGatherInfo \<Rightarrow> ('r, 'r list) act" where
  "get_fcconsistgrp_list self w =
     (case svc_obj_info self ''lsfcconsistgrp'' w of
        (Inr fcconsistgrp, w1) \<Rightarrow>
          (Inr fcconsistgrp,
           log_info ''Successfully listed %d fcconsistgrp info from array %s''
             [Num (length fcconsistgrp), Str (clustername (module_params self))] w1)
      | (Inl e, w1) \<Rightarrow>
          (let msg = (''Get fcconsistgrp info from array %s failed with error %s '',
                      clustername (module_params self), e)
           in fail_json msg (log_error msg w1)))"

definition get_vdiskcopy_list :: "'r IBMSVCGatherInfo \<Rightarrow> ('r, 'r list) act" where
  "get_vdiskcopy_list self w =
     (case svc_obj_info self ''lsvdiskcopy'' w of
        (Inr vdiskcopy, w1) \<Rightarrow>
          (Inr vdiskcopy,
           log_info ''Successfully listed %d vdiskcopy info from array %s''
             [Num (length vdiskcopy), Str (clustername (module_params self))] w1)
      | (Inl e, w1) \<Rightarrow>
          (let msg = (''Get vdiskcopy info from array %s failed with error %s '',
                      clustername (module_params self), e)
           in fail_json msg (log_error msg w1)))"

subsection \<open>apply\<close>

text \<open>
  \<^verbatim>\<open>apply\<close> (named \<open>apply_info\<close> here, \<open>apply\<close> being a keyword). Each of the
  fifteen variables starts as \<^verbatim>\<open>[]\<close> and is overwritten by its getter when its label is
  in \<^verbatim>\<open>subset\<close>; the tests come in the order of the source.
\<close>

definition apply_info :: "'r IBMSVCGatherInfo \<Rightarrow> ('r, unit) act" where
  "apply_info self w0 =
     (let subset0 = gather_subset (module_params self);
          dflt = (length subset0 = 0 \<or> ''all'' \<in> set subset0);
          w = (if dflt then log_info ''The default value for gather_subset is all'' [] w0
               else w0);
          subset = (if dflt
                    then [''vol'', ''pool'', ''node'', ''iog'', ''host'', ''hc'', ''fc'',
                          ''fcport'', ''iscsiport'', ''fcmap'', ''fcconsistgrp'',
                          ''vdiskcopy'', ''targetportfc'', ''array'', ''system'']
                    else subset0)
      in
       bind_act (if ''vol'' \<in> set subset then get_volumes_list self else return_act []) (\<lambda>vol.
       bind_act (if ''pool'' \<in> set subset then get_pools_list self else return_act []) (\<lambda>pool.
       bind_act (if ''node'' \<in> set subset then get_nodes_list self else return_act []) (\<lambda>node.
       bind_act (if ''iog'' \<in> set subset then get_iogroups_list self else return_act []) (\<lambda>iog.
       bind_act (if ''host'' \<in> set subset then get_hosts_list self else return_act []) (\<lambda>host.
       bind_act (if ''hc'' \<in> set subset then get_host_clusters_list self else return_act []) (\<lambda>hc.
       bind_act (if ''fc'' \<in> set subset then get_fc_connectivity_list self else return_act []) (\<lambda>fc.
       bind_act (if ''targetportfc'' \<in> set subset then get_target_port_fc_list self else return_act []) (\<lambda>targetportfc.
       bind_act (if ''fcport'' \<in> set subset then get_fc_ports_list self else return_act []) (\<lambda>fcport.
       bind_act (if ''iscsiport'' \<in> set subset then get_iscsi_ports_list self else return_act []) (\<lambda>iscsiport.
       bind_act (if ''fcmap'' \<in> set subset then get_fc_map_list self else return_act []) (\<lambda>fcmap.
       bind_act (if ''fcconsistgrp'' \<in> set subset then get_fcconsistgrp_list self else return_act []) (\<lambda>fcconsistgrp.
       bind_act (if ''vdiskcopy'' \<in> set subset then get_vdiskcopy_list self else return_act []) (\<lambda>vdiskcopy.
       bind_act (if ''array'' \<in> set subset then get_array_list self else return_act []) (\<lambda>array.
       bind_act (if ''system'' \<in> set subset then get_system_list self else return_act []) (\<lambda>system.
       exit_json
         [(''Volumes'', vol),
          (''Pools'', pool),
          (''Nodes'', node),
          (''IOGroup'', iog),
          (''Hosts'', host),
          (''HostClusters'', hc),
          (''FCConnectivity'', fc),
          (''FCConsistgrp'', fcconsistgrp),
          (''VdiskCopy'', vdiskcopy),
          (''FCPorts'', fcport),
          (''TargetPortFC'', targetportfc),
          (''iSCSIPorts'', iscsiport),
          (''FCMaps'', fcmap),
          (''Array'', array),
          (''System'', system)]))))))))))))))) w)"

text \<open>
  \<^verbatim>\<open>main\<close> builds the object, which ends the process when the arguments are rejected,
  and then calls \<^verbatim>\<open>apply\<close>. Its \<^verbatim>\<open>except Exception\<close> handler has nothing to catch:
  every exception of a query is caught in its getter, and the exits of \<^verbatim>\<open>exit_json\<close>
  and \<^verbatim>\<open>fail_json\<close> are not \<^verbatim>\<open>Exception\<close>s.
\<close>

definition main :: "params \<Rightarrow> (string \<Rightarrow> 'r response) \<Rightarrow> ('r, unit) act" where
  "main p client w =
     (case init p client of
        Inl x \<Rightarrow> (Inl x, w)
      | Inr self \<Rightarrow> apply_info self w)"

section \<open>Vocabulary of the properties\<close>

text \<open>
  The list that \<^verbatim>\<open>apply\<close> substitutes for an empty subset or one containing
  \<^verbatim>\<open>'all'\<close>, and the subset that the membership tests of \<^verbatim>\<open>apply\<close> then read.
\<close>

definition all_categories :: "string list" where
  "all_categories =
     [''vol'', ''pool'', ''node'', ''iog'', ''host'', ''hc'', ''fc'', ''fcport'',
      ''iscsiport'', ''fcmap'', ''fcconsistgrp'', ''vdiskcopy'', ''targetportfc'',
      ''array'', ''system'']"

definition requested :: "string list \<Rightarrow> string list" where
  "requested subset0 =
     (if length subset0 = 0 \<or> ''all'' \<in> set subset0 then all_categories else subset0)"

text \<open>The labels in the order in which \<^verbatim>\<open>apply\<close> tests them.\<close>

definition query_order :: "string list" where
  "query_order =
     [''vol'', ''pool'', ''node'', ''iog'', ''host'', ''hc'', ''fc'', ''targetportfc'',
      ''fcport'', ''iscsiport'', ''fcmap'', ''fcconsistgrp'', ''vdiskcopy'', ''array'',
      ''system'']"

text \<open>The if-chain of \<^verbatim>\<open>apply\<close> as a table: the getter called for each label.\<close>

definition dispatch :: "'r IBMSVCGatherInfo \<Rightarrow> (string \<times> ('r, 'r list) act) list" where
  "dispatch self =
     [(''vol'', get_volumes_list self),
      (''pool'', get_pools_list self),
      (''node'', get_nodes_list self),
      (''iog'', get_iogroups_list self),
      (''host'', get_hosts_list self),
      (''hc'', get_host_clusters_list self),
      (''fc'', get_fc_connectivity_list self),
      (''targetportfc'', get_target_port_fc_list self),
      (''fcport'', get_fc_ports_list self),
      (''iscsiport'', get_iscsi_ports_list self),
      (''fcmap'', get_fc_map_list self),
      (''fcconsistgrp'', get_fcconsistgrp_list self),
      (''vdiskcopy'', get_vdiskcopy_list self),
      (''array'', get_array_list self),
      (''system'', get_system_list self)]"

text \<open>Lookup in a table of strings; a label outside the table gives the empty string.\<close>

definition lookup :: "(string \<times> 'a list) list \<Rightarrow> string \<Rightarrow> 'a list" where
  "lookup tbl l = (case map_of tbl l of Some v \<Rightarrow> v | None \<Rightarrow> [])"

text \<open>The read-only command of each category, as the specification lists them.\<close>

definition command_of :: "string \<Rightarrow> string" where
  "command_of =
     lookup
       [(''vol'', ''lsvdisk''), (''pool'', ''lsmdiskgrp''), (''node'', ''lsnode''),
        (''iog'', ''lsiogrp''), (''host'', ''lshost''), (''hc'', ''lshostcluster''),
        (''fc'', ''lsfabric''), (''fcport'', ''lsportfc''),
        (''targetportfc'', ''lstargetportfc''), (''iscsiport'', ''lsportip''),
        (''fcmap'', ''lsfcmap''), (''fcconsistgrp'', ''lsfcconsistgrp''),
        (''vdiskcopy'', ''lsvdiskcopy''), (''array'', ''lsarray''),
        (''system'', ''lssystem'')]"

text \<open>The output field of each category.\<close>

definition field_of :: "string \<Rightarrow> string" where
  "field_of =
     lookup
       [(''vol'', ''Volumes''), (''pool'', ''Pools''), (''node'', ''Nodes''),
        (''iog'', ''IOGroup''), (''host'', ''Hosts''), (''hc'', ''HostClusters''),
        (''fc'', ''FCConnectivity''), (''fcconsistgrp'', ''FCConsistgrp''),
        (''vdiskcopy'', ''VdiskCopy''), (''fcport'', ''FCPorts''),
        (''targetportfc'', ''TargetPortFC''), (''iscsiport'', ''iSCSIPorts''),
        (''fcmap'', ''FCMaps''), (''array'', ''Array''), (''system'', ''System'')]"

definition field_names :: "string list" where
  "field_names =
     [''Volumes'', ''Pools'', ''Nodes'', ''IOGroup'', ''Hosts'', ''HostClusters'',
      ''FCConnectivity'', ''FCConsistgrp'', ''VdiskCopy'', ''FCPorts'', ''TargetPortFC'',
      ''iSCSIPorts'', ''FCMaps'', ''Array'', ''System'']"

text \<open>The words by which the failure message of a category names it.\<close>

definition category_phrase :: "string \<Rightarrow> string" where
  "category_phrase =
     lookup
       [(''vol'', ''Volumes''), (''pool'', ''Pools''), (''node'', ''Nodes''),
        (''iog'', ''IO Groups''), (''host'', ''Hosts''), (''hc'', ''Host Cluster''),
        (''fc'', ''FC Connectivity''), (''fcport'', ''fc ports''),
        (''targetportfc'', ''target port fc''), (''iscsiport'', ''iscsi ports''),
        (''fcmap'', ''fc maps''), (''fcconsistgrp'', ''fcconsistgrp info''),
        (''vdiskcopy'', ''vdiskcopy info''), (''array'', ''Array info''),
        (''system'', ''System info'')]"

definition failure_message :: "'r IBMSVCGatherInfo \<Rightarrow> string \<Rightarrow> string \<Rightarrow> fail_msg" where
  "failure_message self l e =
     (''Get '' @ category_phrase l @ '' from array %s failed with error %s '',
      clustername (module_params self), e)"

text \<open>
  The labels whose getter \<^verbatim>\<open>apply\<close> calls when no query fails, in calling order.
\<close>

definition selected :: "string list \<Rightarrow> string list" where
  "selected subset0 = filter (\<lambda>l. l \<in> set (requested subset0)) query_order"

text \<open>
  Walking through labels in order: the first one whose command fails, with the error, and
  the commands up to and including that one (all of them when none fails).
\<close>

fun first_failure :: "(string \<Rightarrow> 'r response) \<Rightarrow> string list \<Rightarrow> (string \<times> string) option" where
  "first_failure client [] = None"
| "first_failure client (l # ls) =
     (case client (command_of l) of
        Inl e \<Rightarrow> Some (l, e)
      | Inr vs \<Rightarrow> first_failure client ls)"

fun sent :: "(string \<Rightarrow> 'r response) \<Rightarrow> string list \<Rightarrow> string list" where
  "sent client [] = []"
| "sent client (l # ls) =
     command_of l # (case client (command_of l) of Inl e \<Rightarrow> [] | Inr vs \<Rightarrow> sent client ls)"

text \<open>The value of a category's variable at the end of a run in which no query failed.\<close>

definition result_of :: "(string \<Rightarrow> 'r response) \<Rightarrow> string list \<Rightarrow> string \<Rightarrow> 'r list" where
  "result_of client sub l =
     (if l \<in> set sub
      then (case client (command_of l) of Inr vs \<Rightarrow> vs | Inl e \<Rightarrow> [])
      else [])"

definition report_of :: "(string \<Rightarrow> 'r list) \<Rightarrow> (string \<times> 'r list) list" where
  "report_of val =
     [(''Volumes'', val ''vol''),
      (''Pools'', val ''pool''),
      (''Nodes'', val ''node''),
      (''IOGroup'', val ''iog''),
      (''Hosts'', val ''host''),
      (''HostClusters'', val ''hc''),
      (''FCConnectivity'', val ''fc''),
      (''FCConsistgrp'', val ''fcconsistgrp''),
      (''VdiskCopy'', val ''vdiskcopy''),
      (''FCPorts'', val ''fcport''),
      (''TargetPortFC'', val ''targetportfc''),
      (''iSCSIPorts'', val ''iscsiport''),
      (''FCMaps'', val ''fcmap''),
      (''Array'', val ''array''),
      (''System'', val ''system'')]"

text \<open>Running a dispatch table against a subset, collecting each label's value.\<close>

fun run_steps ::
  "string list \<Rightarrow> (string \<times> ('r, 'r list) act) list \<Rightarrow> ('r, (string \<times> 'r list) list) act" where
  "run_steps sub [] = return_act []"
| "run_steps sub ((l, g) # gs) =
     bind_act (if l \<in> set sub then g else return_act []) (\<lambda>v.
     bind_act (run_steps sub gs) (\<lambda>env.
     return_act ((l, v) # env)))"

section \<open>Example inputs\<close>

text \<open>
  A parameter set asking for everything, a client that answers every command with one
  record, a client whose pool query raises, and a world in which nothing has happened yet.
\<close>

definition example_params :: params where
  "example_params =
     \<lparr>name = ''gather'', state = ''info'', gather_subset = [''all''],
      clustername = ''cluster1'', domain = None, username = ''admin'',
      password = ''secret'', validate_certs = False, log_path = None\<rparr>"

definition client_ok :: "string \<Rightarrow> nat response" where
  "client_ok cmd = Inr [length cmd]"

definition client_pool_down :: "string \<Rightarrow> nat response" where
  "client_pool_down cmd = (if cmd = ''lsmdiskgrp'' then Inl ''timeout'' else Inr [length cmd])"

definition world0 :: world where
  "world0 = \<lparr>issued = [], logged = []\<rparr>"

section \<open>The if-chain of apply is a walk through the dispatch table\<close>

lemma bind_return_act: "bind_act (return_act v) f = f v"
  by (rule ext) (simp add: bind_act_def return_act_def)

lemma bind_assoc_act: "bind_act (bind_act m f) g = bind_act m (\<lambda>x. bind_act (f x) g)"
  by (rule ext) (simp add: bind_act_def split: prod.splits sum.splits)

lemma report_of_env:
  "report_of (lookup
      [(''vol'', vol), (''pool'', pool), (''node'', node), (''iog'', iog), (''host'', host),
       (''hc'', hc), (''fc'', fc), (''targetportfc'', targetportfc), (''fcport'', fcport),
       (''iscsiport'', iscsiport), (''fcmap'', fcmap), (''fcconsistgrp'', fcconsistgrp),
       (''vdiskcopy'', vdiskcopy), (''array'', array), (''system'', system)]) =
   [(''Volumes'', vol), (''Pools'', pool), (''Nodes'', node), (''IOGroup'', iog),
    (''Hosts'', host), (''HostClusters'', hc), (''FCConnectivity'', fc),
    (''FCConsistgrp'', fcconsistgrp), (''VdiskCopy'', vdiskcopy), (''FCPorts'', fcport),
    (''TargetPortFC'', targetportfc), (''iSCSIPorts'', iscsiport), (''FCMaps'', fcmap),
    (''Array'', array), (''System'', system)]"
  by (simp add: report_of_def lookup_def)

lemma collect_as_steps:
  "bind_act (run_steps sub (dispatch self)) (\<lambda>env. exit_json (report_of (lookup env))) =
       bind_act (if ''vol'' \<in> set sub then get_volumes_list self else return_act []) (\<lambda>vol.
       bind_act (if ''pool'' \<in> set sub then get_pools_list self else return_act []) (\<lambda>pool.
       bind_act (if ''node'' \<in> set sub then get_nodes_list self else return_act []) (\<lambda>node.
       bind_act (if ''iog'' \<in> set sub then get_iogroups_list self else return_act []) (\<lambda>iog.
       bind_act (if ''host'' \<in> set sub then get_hosts_list self else return_act []) (\<lambda>host.
       bind_act (if ''hc'' \<in> set sub then get_host_clusters_list self else return_act []) (\<lambda>hc.
       bind_act (if ''fc'' \<in> set sub then get_fc_connectivity_list self else return_act []) (\<lambda>fc.
       bind_act (if ''targetportfc'' \<in> set sub then get_target_port_fc_list self else return_act []) (\<lambda>targetportfc.
       bind_act (if ''fcport'' \<in> set sub then get_fc_ports_list self else return_act []) (\<lambda>fcport.
       bind_act (if ''iscsiport'' \<in> set sub then get_iscsi_ports_list self else return_act []) (\<lambda>iscsiport.
       bind_act (if ''fcmap'' \<in> set sub then get_fc_map_list self else return_act []) (\<lambda>fcmap.
       bind_act (if ''fcconsistgrp'' \<in> set sub then get_fcconsistgrp_list self else return_act []) (\<lambda>fcconsistgrp.
       bind_act (if ''vdiskcopy'' \<in> set sub then get_vdiskcopy_list self else return_act []) (\<lambda>vdiskcopy.
       bind_act (if ''array'' \<in> set sub then get_array_list self else return_act []) (\<lambda>array.
       bind_act (if ''system'' \<in> set sub then get_system_list self else return_act []) (\<lambda>system.
       exit_json
         [(''Volumes'', vol),
          (''Pools'', pool),
          (''Nodes'', node),
          (''IOGroup'', iog),
          (''Hosts'', host),
          (''HostClusters'', hc),
          (''FCConnectivity'', fc),
          (''FCConsistgrp'', fcconsistgrp),
          (''VdiskCopy'', vdiskcopy),
          (''FCPorts'', fcport),
          (''TargetPortFC'', targetportfc),
          (''iSCSIPorts'', iscsiport),
          (''FCMaps'', fcmap),
          (''Array'', array),
          (''System'', system)])))))))))))))))"
  unfolding dispatch_def run_steps.simps bind_assoc_act bind_return_act report_of_env ..

lemma apply_info_steps:
  "apply_info self w0 =
     bind_act (run_steps (requested (gather_subset (module_params self))) (dispatch self))
       (\<lambda>env. exit_json (report_of (lookup env)))
       (if length (gather_subset (module_params self)) = 0 \<or> ''all'' \<in> set (gather_subset (module_params self))
        then log_info ''The default value for gather_subset is all'' [] w0 else w0)"
  unfolding collect_as_steps apply_info_def Let_def requested_def all_categories_def ..

section \<open>What each getter returns and sends\<close>

text \<open>The tables, entry by entry.\<close>

lemma command_of_simps:
  "command_of ''vol'' = ''lsvdisk''" "command_of ''pool'' = ''lsmdiskgrp''"
  "command_of ''node'' = ''lsnode''" "command_of ''iog'' = ''lsiogrp''"
  "command_of ''host'' = ''lshost''" "command_of ''hc'' = ''lshostcluster''"
  "command_of ''fc'' = ''lsfabric''" "command_of ''fcport'' = ''lsportfc''"
  "command_of ''targetportfc'' = ''lstargetportfc''" "command_of ''iscsiport'' = ''lsportip''"
  "command_of ''fcmap'' = ''lsfcmap''" "command_of ''fcconsistgrp'' = ''lsfcconsistgrp''"
  "command_of ''vdiskcopy'' = ''lsvdiskcopy''" "command_of ''array'' = ''lsarray''"
  "command_of ''system'' = ''lssystem''"
  by (simp_all add: command_of_def lookup_def)

lemma failure_message_simps:
  "failure_message self ''vol'' e =
     (''Get Volumes from array %s failed with error %s '', clustername (module_params self), e)"
  "failure_message self ''pool'' e =
     (''Get Pools from array %s failed with error %s '', clustername (module_params self), e)"
  "failure_message self ''node'' e =
     (''Get Nodes from array %s failed with error %s '', clustername (module_params self), e)"
  "failure_message self ''iog'' e =
     (''Get IO Groups from array %s failed with error %s '', clustername (module_params self), e)"
  "failure_message self ''host'' e =
     (''Get Hosts from array %s failed with error %s '', clustername (module_params self), e)"
  "failure_message self ''hc'' e =
     (''Get Host Cluster from array %s failed with error %s '', clustername (module_params self), e)"
  "failure_message self ''fc'' e =
     (''Get FC Connectivity from array %s failed with error %s '', clustername (module_params self), e)"
  "failure_message self ''fcport'' e =
     (''Get fc ports from array %s failed with error %s '', clustername (module_params self), e)"
  "failure_message self ''targetportfc'' e =
     (''Get target port fc from array %s failed with error %s '', clustername (module_params self), e)"
  "failure_message self ''iscsiport'' e =
     (''Get iscsi ports from array %s failed with error %s '', clustername (module_params self), e)"
  "failure_message self ''fcmap'' e =
     (''Get fc maps from array %s failed with error %s '', clustername (module_params self), e)"
  "failure_message self ''fcconsistgrp'' e =
     (''Get fcconsistgrp info from array %s failed with error %s '', clustername (module_params self), e)"
  "failure_message self ''vdiskcopy'' e =
     (''Get vdiskcopy info from array %s failed with error %s '', clustername (module_params self), e)"
  "failure_message self ''array'' e =
     (''Get Array info from array %s failed with error %s '', clustername (module_params self), e)"
  "failure_message self ''system'' e =
     (''Get System info from array %s failed with error %s '', clustername (module_params self), e)"
  by (simp_all add: failure_message_def category_phrase_def lookup_def)

lemmas getter_defs =
  get_volumes_list_def get_pools_list_def get_nodes_list_def get_hosts_list_def
  get_iogroups_list_def get_host_clusters_list_def get_fc_connectivity_list_def
  get_fc_ports_list_def get_target_port_fc_list_def get_iscsi_ports_list_def
  get_fc_map_list_def get_array_list_def get_system_list_def get_fcconsistgrp_list_def
  get_vdiskcopy_list_def

text \<open>
  Every getter of the dispatch table sends the command of its label, once, and either
  returns the client's records unchanged or ends the run with the failure message of its
  label.
\<close>

lemma dispatch_fst:
  "\<forall>(l, g) \<in> set (dispatch self). \<forall>w.
     fst (g w) = (case restapi self (command_of l) of
                    Inr vs \<Rightarrow> Inr vs
                  | Inl e \<Rightarrow> Inl (Fail_json (failure_message self l e)))"
  apply (simp only: dispatch_def list.set ball_simps prod.case)
  apply (intro conjI allI)
  apply (simp_all add: getter_defs svc_obj_info_def fail_json_def Let_def
        command_of_simps failure_message_simps split: sum.splits)
  done

lemma dispatch_issued:
  "\<forall>(l, g) \<in> set (dispatch self). \<forall>w. issued (snd (g w)) = issued w @ [command_of l]"
  apply (simp only: dispatch_def list.set ball_simps prod.case)
  apply (intro conjI allI)
  apply (simp_all add: getter_defs svc_obj_info_def fail_json_def Let_def
        log_info_def log_error_def command_of_simps split: sum.splits)
  done

lemma getter_fst:
  "(l, g) \<in> set (dispatch self) \<Longrightarrow>
   fst (g w) = (case restapi self (command_of l) of
                  Inr vs \<Rightarrow> Inr vs
                | Inl e \<Rightarrow> Inl (Fail_json (failure_message self l e)))"
  using dispatch_fst [of self] by blast

lemma getter_issued:
  "(l, g) \<in> set (dispatch self) \<Longrightarrow> issued (snd (g w)) = issued w @ [command_of l]"
  using dispatch_issued [of self] by blast

section \<open>Outcome and command trace of a run\<close>

lemma fst_bind_act:
  "fst (bind_act m f w) = (case fst (m w) of Inl x \<Rightarrow> Inl x | Inr v \<Rightarrow> fst (f v (snd (m w))))"
  by (simp add: bind_act_def split: prod.splits sum.splits)

lemma snd_bind_act:
  "snd (bind_act m f w) = (case fst (m w) of Inl x \<Rightarrow> snd (m w) | Inr v \<Rightarrow> snd (f v (snd (m w))))"
  by (simp add: bind_act_def split: prod.splits sum.splits)

lemma run_steps_fst:
  "set gs \<subseteq> set (dispatch self) \<Longrightarrow>
   fst (run_steps sub gs w) =
     (case first_failure (restapi self) (filter (\<lambda>l. l \<in> set sub) (map fst gs)) of
        Some (l, e) \<Rightarrow> Inl (Fail_json (failure_message self l e))
      | None \<Rightarrow> Inr (map (\<lambda>l. (l, result_of (restapi self) sub l)) (map fst gs)))"
proof (induction gs arbitrary: w)
  case Nil
  show ?case by (simp add: return_act_def)
next
  case (Cons a gs)
  obtain l g where a: "a = (l, g)" by (cases a)
  from Cons.prems a have mem: "(l, g) \<in> set (dispatch self)" and sub: "set gs \<subseteq> set (dispatch self)"
    by auto
  note IH = Cons.IH [OF sub]
  show ?case
    by (simp add: a fst_bind_act snd_bind_act IH getter_fst [OF mem] return_act_def result_of_def
          split: sum.splits option.splits)
qed

lemma run_steps_issued:
  "set gs \<subseteq> set (dispatch self) \<Longrightarrow>
   issued (snd (run_steps sub gs w)) =
     issued w @ sent (restapi self) (filter (\<lambda>l. l \<in> set sub) (map fst gs))"
proof (induction gs arbitrary: w)
  case Nil
  show ?case by (simp add: return_act_def)
next
  case (Cons a gs)
  obtain l g where a: "a = (l, g)" by (cases a)
  from Cons.prems a have mem: "(l, g) \<in> set (dispatch self)" and sub: "set gs \<subseteq> set (dispatch self)"
    by auto
  note IH = Cons.IH [OF sub]
  show ?case
    by (simp add: a fst_bind_act snd_bind_act IH getter_fst [OF mem] getter_issued [OF mem]
          return_act_def split: sum.splits option.splits)
qed

lemma map_fst_dispatch: "map fst (dispatch self) = query_order"
  by (simp add: dispatch_def query_order_def)

lemma report_of_query_order:
  "report_of (lookup (map (\<lambda>l. (l, val l)) query_order)) = report_of val"
  by (simp add: report_of_def lookup_def query_order_def)

lemma issued_log_info: "issued (log_info fmt args w) = issued w"
  by (simp add: log_info_def)

lemma apply_info_outcome:
  "fst (apply_info self w) =
     Inl (case first_failure (restapi self) (selected (gather_subset (module_params self))) of
            Some (l, e) \<Rightarrow> Fail_json (failure_message self l e)
          | None \<Rightarrow> Exit_json (report_of (result_of (restapi self)
                                   (requested (gather_subset (module_params self))))))"
  by (simp add: apply_info_steps fst_bind_act run_steps_fst [OF subset_refl] map_fst_dispatch
        selected_def report_of_query_order exit_json_def split: option.splits)

lemma apply_info_issued:
  "issued (snd (apply_info self w)) =
     issued w @ sent (restapi self) (selected (gather_subset (module_params self)))"
  by (simp add: apply_info_steps snd_bind_act run_steps_fst [OF subset_refl]
        run_steps_issued [OF subset_refl] map_fst_dispatch
        selected_def exit_json_def issued_log_info split: option.splits sum.splits)

text \<open>Facts about the walk through a list of labels.\<close>

lemma first_failure_None:
  "first_failure client ls = None \<longleftrightarrow> (\<forall>l \<in> set ls. \<exists>vs. client (command_of l) = Inr vs)"
  by (induction ls) (auto split: sum.splits)

lemma sent_no_failure:
  "first_failure client ls = None \<Longrightarrow> sent client ls = map command_of ls"
  by (induction ls) (auto split: sum.splits)

lemma first_failure_Some:
  "first_failure client ls = Some (l, e) \<Longrightarrow>
   \<exists>ls1 ls2. ls = ls1 @ l # ls2 \<and> (\<forall>x \<in> set ls1. \<exists>vs. client (command_of x) = Inr vs) \<and>
     client (command_of l) = Inl e \<and> sent client ls = map command_of (ls1 @ [l])"
proof (induction ls)
  case Nil
  then show ?case by simp
next
  case (Cons a ls)
  show ?case
  proof (cases "client (command_of a)")
    case (Inl e')
    with Cons.prems have "a = l" "e' = e" by simp_all
    with Inl have "a # ls = [] @ l # ls \<and> (\<forall>x \<in> set []. \<exists>vs. client (command_of x) = Inr vs) \<and>
      client (command_of l) = Inl e \<and> sent client (a # ls) = map command_of ([] @ [l])"
      by simp
    then show ?thesis by blast
  next
    case (Inr vs)
    with Cons.prems have "first_failure client ls = Some (l, e)" by simp
    from Cons.IH [OF this] obtain ls1 ls2 where
      *: "ls = ls1 @ l # ls2" "\<forall>x \<in> set ls1. \<exists>vs. client (command_of x) = Inr vs"
         "client (command_of l) = Inl e" "sent client ls = map command_of (ls1 @ [l])"
      by blast
    from * Inr have "a # ls = (a # ls1) @ l # ls2 \<and>
      (\<forall>x \<in> set (a # ls1). \<exists>vs. client (command_of x) = Inr vs) \<and>
      client (command_of l) = Inl e \<and> sent client (a # ls) = map command_of ((a # ls1) @ [l])"
      by simp
    then show ?thesis by blast
  qed
qed

lemma first_failure_exists:
  "l \<in> set ls \<Longrightarrow> client (command_of l) = Inl e \<Longrightarrow> \<exists>l' e'. first_failure client ls = Some (l', e')"
  by (induction ls) (auto split: sum.splits)

lemma sent_take: "\<exists>n. sent client ls = take n (map command_of ls)"
proof (induction ls)
  case Nil
  show ?case by simp
next
  case (Cons a ls)
  then obtain n where n: "sent client ls = take n (map command_of ls)" by blast
  show ?case
  proof (cases "client (command_of a)")
    case (Inl e)
    then have "sent client (a # ls) = take (Suc 0) (map command_of (a # ls))" by simp
    then show ?thesis by blast
  next
    case (Inr vs)
    with n have "sent client (a # ls) = take (Suc n) (map command_of (a # ls))" by simp
    then show ?thesis by blast
  qed
qed

lemma distinct_commands: "distinct (map command_of query_order)"
  by (simp add: query_order_def command_of_simps)

lemma inj_on_command_of: "inj_on command_of (set query_order)"
  using distinct_commands by (simp add: distinct_map)

lemma distinct_selected_commands: "distinct (map command_of (selected sub))"
  unfolding selected_def
  by (rule distinct_map_filter) (rule distinct_commands)

lemma set_query_order: "set query_order = set all_categories"
  by (simp add: query_order_def all_categories_def insert_commute)

lemma set_selected: "set (selected sub) = set all_categories \<inter> set (requested sub)"
  by (auto simp: selected_def set_query_order)

text \<open>The same for \<^verbatim>\<open>apply\<close> on the object built from parameters and a client.\<close>

lemma constructed_outcome:
  "fst (apply_info (construct p client) w) =
     Inl (case first_failure client (selected (gather_subset p)) of
            Some (l, e) \<Rightarrow>
              Fail_json (''Get '' @ category_phrase l @ '' from array %s failed with error %s '',
                         clustername p, e)
          | None \<Rightarrow> Exit_json (report_of (result_of client (requested (gather_subset p)))))"
  by (simp add: apply_info_outcome construct_def failure_message_def split: option.splits)

lemma constructed_issued:
  "issued (snd (apply_info (construct p client) w)) = issued w @ sent client (selected (gather_subset p))"
  by (simp add: apply_info_issued construct_def)

lemma map_fst_report_of: "map fst (report_of val) = field_names"
  by (simp add: report_of_def field_names_def)

lemma selected_all: "selected [''all''] = query_order"
  by (simp add: selected_def requested_def all_categories_def query_order_def)

lemma example_all_ok:
  "first_failure client_ok (selected (gather_subset example_params)) = None"
  by (simp add: first_failure_None client_ok_def)

lemma dispatch_cong:
  "clustername (module_params a) = clustername (module_params b) \<Longrightarrow> restapi a = restapi b \<Longrightarrow>
   dispatch a = dispatch b"
  by (simp add: dispatch_def getter_defs [abs_def] svc_obj_info_def cong: sum.case_cong)

lemma run_steps_cong: "set a = set b \<Longrightarrow> run_steps a gs = run_steps b gs"
  by (induction gs) auto

lemma requested_cong: "set a = set b \<Longrightarrow> set (requested a) = set (requested b)"
proof -
  assume eq: "set a = set b"
  then have "(a = []) = (b = [])" by (metis set_empty)
  with eq show ?thesis by (simp add: requested_def)
qed

lemma requested_all: "''all'' \<in> set a \<Longrightarrow> requested a = all_categories"
  by (simp add: requested_def)

lemma constructed_steps:
  "apply_info (construct (p\<lparr>gather_subset := a\<rparr>) client) w =
     bind_act (run_steps (requested a) (dispatch (construct p client)))
       (\<lambda>env. exit_json (report_of (lookup env)))
       (if a = [] \<or> ''all'' \<in> set a
        then log_info ''The default value for gather_subset is all'' [] w else w)"
proof -
  have "dispatch (construct (p\<lparr>gather_subset := a\<rparr>) client) = dispatch (construct p client)"
    by (rule dispatch_cong) (simp_all add: construct_def)
  then show ?thesis
    by (simp add: apply_info_steps) (simp add: construct_def)
qed

lemma field_of_simps:
  "field_of ''vol'' = ''Volumes''" "field_of ''pool'' = ''Pools''"
  "field_of ''node'' = ''Nodes''" "field_of ''iog'' = ''IOGroup''"
  "field_of ''host'' = ''Hosts''" "field_of ''hc'' = ''HostClusters''"
  "field_of ''fc'' = ''FCConnectivity''" "field_of ''fcport'' = ''FCPorts''"
  "field_of ''targetportfc'' = ''TargetPortFC''" "field_of ''iscsiport'' = ''iSCSIPorts''"
  "field_of ''fcmap'' = ''FCMaps''" "field_of ''fcconsistgrp'' = ''FCConsistgrp''"
  "field_of ''vdiskcopy'' = ''VdiskCopy''" "field_of ''array'' = ''Array''"
  "field_of ''system'' = ''System''"
  by (simp_all add: field_of_def lookup_def)

lemma all_categories_cases:
  "l \<in> set all_categories \<Longrightarrow>
   l = ''vol'' \<or> l = ''pool'' \<or> l = ''node'' \<or> l = ''iog'' \<or> l = ''host'' \<or> l = ''hc'' \<or>
   l = ''fc'' \<or> l = ''fcport'' \<or> l = ''iscsiport'' \<or> l = ''fcmap'' \<or> l = ''fcconsistgrp'' \<or>
   l = ''vdiskcopy'' \<or> l = ''targetportfc'' \<or> l = ''array'' \<or> l = ''system''"
  by (simp add: all_categories_def)

lemma lookup_report_of:
  "l \<in> set all_categories \<Longrightarrow> lookup (report_of val) (field_of l) = val l"
  by (drule all_categories_cases, elim disjE)
     (simp_all add: field_of_simps report_of_def lookup_def)

lemma all_not_category: "''all'' \<notin> set all_categories"
  by (simp add: all_categories_def)

lemma result_of_cong: "set a = set b \<Longrightarrow> result_of client a = result_of client b"
  by (rule ext) (simp add: result_of_def)

lemma selected_cong: "set (requested a) = set (requested b) \<Longrightarrow> selected a = selected b"
  by (simp add: selected_def)

lemma requested_explicit: "set b = set all_categories \<Longrightarrow> requested b = b"
proof -
  assume eq: "set b = set all_categories"
  then have "''all'' \<notin> set b" by (simp add: all_not_category)
  moreover have "''vol'' \<in> set all_categories" by (simp add: all_categories_def)
  with eq have "b \<noteq> []" by auto
  ultimately show ?thesis by (simp add: requested_def)
qed

lemma requested_default: "a = [] \<or> ''all'' \<in> set a \<Longrightarrow> requested a = all_categories"
  by (auto simp: requested_def)

lemma constructed_subset_outcome:
  "fst (apply_info (construct (p\<lparr>gather_subset := a\<rparr>) client) w) =
     Inl (case first_failure client (selected a) of
            Some (l, e) \<Rightarrow>
              Fail_json (''Get '' @ category_phrase l @ '' from array %s failed with error %s '',
                         clustername p, e)
          | None \<Rightarrow> Exit_json (report_of (result_of client (requested a))))"
  by (simp add: constructed_outcome split: option.splits)

lemma constructed_subset_issued:
  "issued (snd (apply_info (construct (p\<lparr>gather_subset := a\<rparr>) client) w)) = issued w @ sent client (selected a)"
  by (simp add: constructed_issued)

lemma count_list_distinct: "distinct xs \<Longrightarrow> x \<in> set xs \<Longrightarrow> count_list xs x = 1"
  by (induction xs) auto

lemma later_commands_differ:
  "distinct (map f (xs @ y # zs)) \<Longrightarrow> z \<in> set zs \<Longrightarrow> f z \<notin> set (map f (xs @ [y]))"
  by (auto simp: image_iff)

lemma category_phrase_simps:
  "category_phrase ''vol'' = ''Volumes''" "category_phrase ''pool'' = ''Pools''"
  "category_phrase ''node'' = ''Nodes''" "category_phrase ''iog'' = ''IO Groups''"
  "category_phrase ''host'' = ''Hosts''" "category_phrase ''hc'' = ''Host Cluster''"
  "category_phrase ''fc'' = ''FC Connectivity''" "category_phrase ''fcport'' = ''fc ports''"
  "category_phrase ''targetportfc'' = ''target port fc''"
  "category_phrase ''iscsiport'' = ''iscsi ports''" "category_phrase ''fcmap'' = ''fc maps''"
  "category_phrase ''fcconsistgrp'' = ''fcconsistgrp info''"
  "category_phrase ''vdiskcopy'' = ''vdiskcopy info''" "category_phrase ''array'' = ''Array info''"
  "category_phrase ''system'' = ''System info''"
  by (simp_all add: category_phrase_def lookup_def)

lemma requested_single: "l \<in> set all_categories \<Longrightarrow> requested [l] = [l]"
  using all_not_category by (auto simp: requested_def)

lemma filter_single:
  "distinct xs \<Longrightarrow> l \<in> set xs \<Longrightarrow> filter (\<lambda>x. x = l) xs = [l]"
  by (induction xs) (auto simp: filter_empty_conv)

lemma distinct_query_order: "distinct query_order"
  by (simp add: query_order_def)

lemma selected_single: "l \<in> set all_categories \<Longrightarrow> selected [l] = [l]"
  by (simp add: selected_def requested_single filter_single distinct_query_order set_query_order)

lemma report_single:
  "l \<in> set all_categories \<Longrightarrow> client (command_of l) = Inr vs \<Longrightarrow>
   report_of (result_of client [l]) = map (\<lambda>f. (f, if f = field_of l then vs else [])) field_names"
  by (drule all_categories_cases, elim disjE)
     (simp_all add: report_of_def result_of_def field_names_def field_of_simps)

lemma distinct_phrases: "distinct (map category_phrase all_categories)"
  by (simp add: all_categories_def category_phrase_simps)

text \<open>Construction: what the argument check and \<^verbatim>\<open>apply\<close> read of the parameters.\<close>

lemma main_accepted:
  "rejected_arguments p = [] \<Longrightarrow> main p client w = apply_info (construct p client) w"
  by (simp add: main_def init_def)

lemma main_exit_json:
  "fst (main p client w) = Inl (Exit_json r) \<Longrightarrow> main p client w = apply_info (construct p client) w"
  by (cases "rejected_arguments p = []") (simp_all add: main_def init_def)

lemma example_accepted: "rejected_arguments example_params = []"
  by (simp add: rejected_arguments_def example_params_def state_choices_def
        gather_subset_choices_def)

lemma rejected_name: "rejected_arguments (p\<lparr>name := n\<rparr>) = rejected_arguments p"
  by (simp add: rejected_arguments_def)

lemma apply_name:
  "apply_info (construct (p\<lparr>name := n\<rparr>) client) w = apply_info (construct p client) w"
proof -
  have "dispatch (construct (p\<lparr>name := n\<rparr>) client) = dispatch (construct p client)"
    by (rule dispatch_cong) (simp_all add: construct_def)
  moreover
  have "gather_subset (module_params (construct (p\<lparr>name := n\<rparr>) client)) =
        gather_subset (module_params (construct p client))"
    by (simp add: construct_def)
  ultimately show ?thesis
    by (simp only: apply_info_steps)
qed

lemma apply_name_state:
  "apply_info (construct (p\<lparr>name := n, state := s\<rparr>) client) w =
   apply_info (construct p client) w"
proof -
  have "dispatch (construct (p\<lparr>name := n, state := s\<rparr>) client) = dispatch (construct p client)"
    by (rule dispatch_cong) (simp_all add: construct_def)
  moreover
  have "gather_subset (module_params (construct (p\<lparr>name := n, state := s\<rparr>) client)) =
        gather_subset (module_params (construct p client))"
    by (simp add: construct_def)
  ultimately show ?thesis
    by (simp only: apply_info_steps)
qed

section \<open>The claims\<close>

text \<open>
  Several claims are about the dispatcher, \<^verbatim>\<open>apply\<close>, whatever parameters its object
  holds; they are stated of \<open>apply_info (construct p client)\<close>, which by \<open>main_accepted\<close>
  is what \<^verbatim>\<open>main\<close> runs whenever the argument specification accepts \<open>p\<close>. The others are
  stated of \<^verbatim>\<open>main\<close> itself.
\<close>

text \<open>
  C1. When \<^verbatim>\<open>gather_subset\<close> is empty or contains \<^verbatim>\<open>'all'\<close>, the run has the same
  outcome and issues the same commands as a run whose \<^verbatim>\<open>gather_subset\<close> lists the
  fifteen category labels themselves (in any order); and when that outcome is a report,
  it has the fifteen fields, each holding the records that the client returned for the
  command of its category. (The logs of the two runs differ by one entry: only the first
  run writes that the default value of \<^verbatim>\<open>gather_subset\<close> is all.)
\<close>

theorem all_or_empty_is_every_category:
  assumes "a = [] \<or> ''all'' \<in> set a" and "set b = set all_categories"
  shows "fst (apply_info (construct (p\<lparr>gather_subset := a\<rparr>) client) w) =
           fst (apply_info (construct (p\<lparr>gather_subset := b\<rparr>) client) w) \<and>
         issued (snd (apply_info (construct (p\<lparr>gather_subset := a\<rparr>) client) w)) =
           issued (snd (apply_info (construct (p\<lparr>gather_subset := b\<rparr>) client) w)) \<and>
         (\<forall>r. fst (apply_info (construct (p\<lparr>gather_subset := a\<rparr>) client) w) = Inl (Exit_json r) \<longrightarrow>
              map fst r = field_names \<and>
              (\<forall>l \<in> set all_categories. client (command_of l) = Inr (lookup r (field_of l))))"
proof -
  from assms have req: "set (requested a) = set (requested b)"
    by (simp add: requested_default requested_explicit)
  have sel: "selected a = selected b"
    by (rule selected_cong) (rule req)
  have res: "result_of client (requested a) = result_of client (requested b)"
    by (rule result_of_cong) (rule req)
  have same: "fst (apply_info (construct (p\<lparr>gather_subset := a\<rparr>) client) w) =
              fst (apply_info (construct (p\<lparr>gather_subset := b\<rparr>) client) w)"
    by (simp only: constructed_subset_outcome sel res)
  have trace: "issued (snd (apply_info (construct (p\<lparr>gather_subset := a\<rparr>) client) w)) =
               issued (snd (apply_info (construct (p\<lparr>gather_subset := b\<rparr>) client) w))"
    by (simp only: constructed_subset_issued sel)
  have fields: "map fst r = field_names \<and>
        (\<forall>l \<in> set all_categories. client (command_of l) = Inr (lookup r (field_of l)))"
    if ok: "fst (apply_info (construct (p\<lparr>gather_subset := a\<rparr>) client) w) = Inl (Exit_json r)" for r
  proof -
    from ok have none: "first_failure client (selected a) = None"
      and r: "r = report_of (result_of client (requested a))"
      by (simp_all add: constructed_subset_outcome split: option.splits prod.splits)
    from assms(1) have reqa: "requested a = all_categories"
      by (rule requested_default)
    have "client (command_of l) = Inr (lookup r (field_of l))" if l: "l \<in> set all_categories" for l
    proof -
      from l have "l \<in> set (selected a)"
        by (simp add: set_selected reqa)
      with none obtain vs where vs: "client (command_of l) = Inr vs"
        by (auto simp: first_failure_None)
      from l have "lookup r (field_of l) = result_of client all_categories l"
        by (simp add: r reqa lookup_report_of)
      with l vs show ?thesis by (simp add: result_of_def)
    qed
    then show ?thesis by (simp add: r map_fst_report_of)
  qed
  from same trace fields show ?thesis by blast
qed

theorem all_or_empty_is_every_category_witness:
  "([''all''] = [] \<or> ''all'' \<in> set [''all'']) \<and> set query_order = set all_categories \<and>
   fst (apply_info (construct (example_params\<lparr>gather_subset := [''all'']\<rparr>) client_ok) world0) =
     fst (apply_info (construct (example_params\<lparr>gather_subset := query_order\<rparr>) client_ok) world0) \<and>
   issued (snd (apply_info (construct (example_params\<lparr>gather_subset := [''all'']\<rparr>) client_ok) world0)) =
     issued (snd (apply_info (construct (example_params\<lparr>gather_subset := query_order\<rparr>) client_ok) world0)) \<and>
   fst (apply_info (construct (example_params\<lparr>gather_subset := [''all'']\<rparr>) client_ok) world0) =
     Inl (Exit_json (report_of (result_of client_ok (requested [''all''])))) \<and>
   map fst (report_of (result_of client_ok (requested [''all'']))) = field_names \<and>
   client_ok (command_of ''targetportfc'') =
     Inr (lookup (report_of (result_of client_ok (requested [''all'']))) (field_of ''targetportfc''))"
proof -
  have h1: "[''all''] = [] \<or> ''all'' \<in> set [''all'']" by simp
  have h2: "set query_order = set all_categories" by (rule set_query_order)
  note c = all_or_empty_is_every_category [OF h1 h2, of example_params client_ok world0]
  have "first_failure client_ok (selected [''all'']) = None"
    by (simp add: first_failure_None client_ok_def)
  then have ok: "fst (apply_info (construct (example_params\<lparr>gather_subset := [''all'']\<rparr>) client_ok) world0) =
     Inl (Exit_json (report_of (result_of client_ok (requested [''all'']))))"
    by (simp add: constructed_subset_outcome)
  have mem: "''targetportfc'' \<in> set all_categories"
    by (simp add: all_categories_def)
  from c ok have fields: "map fst (report_of (result_of client_ok (requested [''all'']))) = field_names \<and>
     (\<forall>l \<in> set all_categories. client_ok (command_of l) =
        Inr (lookup (report_of (result_of client_ok (requested [''all'']))) (field_of l)))"
    by blast
  with mem have one: "client_ok (command_of ''targetportfc'') =
     Inr (lookup (report_of (result_of client_ok (requested [''all'']))) (field_of ''targetportfc''))"
    by blast
  from c have same: "fst (apply_info (construct (example_params\<lparr>gather_subset := [''all'']\<rparr>) client_ok) world0) =
     fst (apply_info (construct (example_params\<lparr>gather_subset := query_order\<rparr>) client_ok) world0)"
    and trace: "issued (snd (apply_info (construct (example_params\<lparr>gather_subset := [''all'']\<rparr>) client_ok) world0)) =
     issued (snd (apply_info (construct (example_params\<lparr>gather_subset := query_order\<rparr>) client_ok) world0))"
    by blast+
  from fields have names: "map fst (report_of (result_of client_ok (requested [''all'']))) = field_names"
    by blast
  show ?thesis
    by (rule conjI [OF h1 conjI [OF h2 conjI [OF same conjI [OF trace conjI [OF ok conjI [OF names one]]]]]])
qed

text \<open>
  C2. When the query of a requested category \<open>l\<close> raises, the run ends in
  \<^verbatim>\<open>fail_json\<close>, never in \<^verbatim>\<open>exit_json\<close>, so no report, partial or not, is returned.
  The run stops at the first requested category \<open>l1\<close> whose query raises (\<open>l\<close> itself
  or one queried before it): the commands issued are those of the categories before
  \<open>l1\<close>, which all succeeded, and then the command of \<open>l1\<close>; no command of a category
  after \<open>l1\<close> is issued.
\<close>

theorem failing_query_aborts:
  assumes "l \<in> set all_categories" and "l \<in> set (requested (gather_subset p))"
    and "client (command_of l) = Inl e"
  shows "\<exists>ls1 l1 e1 ls2.
           selected (gather_subset p) = ls1 @ l1 # ls2 \<and>
           (\<forall>x \<in> set ls1. \<exists>vs. client (command_of x) = Inr vs) \<and>
           client (command_of l1) = Inl e1 \<and>
           l \<in> set (l1 # ls2) \<and>
           fst (apply_info (construct p client) w) =
             Inl (Fail_json (''Get '' @ category_phrase l1 @ '' from array %s failed with error %s '',
                             clustername p, e1)) \<and>
           issued (snd (apply_info (construct p client) w)) = issued w @ map command_of (ls1 @ [l1]) \<and>
           (\<forall>x \<in> set ls2. command_of x \<notin> set (map command_of (ls1 @ [l1])))"
proof -
  from assms(1,2) have mem: "l \<in> set (selected (gather_subset p))"
    by (simp add: set_selected)
  from first_failure_exists [of l "selected (gather_subset p)" client e] mem assms(3)
  obtain l1 e1 where ff: "first_failure client (selected (gather_subset p)) = Some (l1, e1)"
    by blast
  from first_failure_Some [OF ff] obtain ls1 ls2 where
    dec: "selected (gather_subset p) = ls1 @ l1 # ls2"
    and ok: "\<forall>x \<in> set ls1. \<exists>vs. client (command_of x) = Inr vs"
    and bad: "client (command_of l1) = Inl e1"
    and tr: "sent client (selected (gather_subset p)) = map command_of (ls1 @ [l1])"
    by blast
  have "l \<notin> set ls1"
  proof
    assume "l \<in> set ls1"
    with ok obtain vs where "client (command_of l) = Inr vs" by blast
    with assms(3) show False by simp
  qed
  moreover from mem have "l \<in> set (ls1 @ l1 # ls2)" by (simp only: dec)
  ultimately have later: "l \<in> set (l1 # ls2)" by simp
  have out: "fst (apply_info (construct p client) w) =
      Inl (Fail_json (''Get '' @ category_phrase l1 @ '' from array %s failed with error %s '',
                      clustername p, e1))"
    by (simp add: constructed_outcome ff)
  have iss: "issued (snd (apply_info (construct p client) w)) = issued w @ map command_of (ls1 @ [l1])"
    by (simp only: constructed_issued tr)
  have d: "distinct (map command_of (ls1 @ l1 # ls2))"
    using distinct_selected_commands [of "gather_subset p"] by (simp only: dec)
  have none: "\<forall>x \<in> set ls2. command_of x \<notin> set (map command_of (ls1 @ [l1]))"
    by (rule ballI) (rule later_commands_differ [OF d])
  show ?thesis
    by (rule exI [of _ ls1], rule exI [of _ l1], rule exI [of _ e1], rule exI [of _ ls2])
       (intro conjI dec ok bad later out iss none)
qed

theorem failing_query_aborts_witness:
  "''pool'' \<in> set all_categories \<and>
   ''pool'' \<in> set (requested (gather_subset example_params)) \<and>
   client_pool_down (command_of ''pool'') = Inl ''timeout'' \<and>
   (\<exists>ls1 l1 e1 ls2.
           selected (gather_subset example_params) = ls1 @ l1 # ls2 \<and>
           (\<forall>x \<in> set ls1. \<exists>vs. client_pool_down (command_of x) = Inr vs) \<and>
           client_pool_down (command_of l1) = Inl e1 \<and>
           ''pool'' \<in> set (l1 # ls2) \<and>
           fst (apply_info (construct example_params client_pool_down) world0) =
             Inl (Fail_json (''Get '' @ category_phrase l1 @ '' from array %s failed with error %s '',
                             clustername example_params, e1)) \<and>
           issued (snd (apply_info (construct example_params client_pool_down) world0)) =
             issued world0 @ map command_of (ls1 @ [l1]) \<and>
           (\<forall>x \<in> set ls2. command_of x \<notin> set (map command_of (ls1 @ [l1]))))"
proof -
  have h1: "''pool'' \<in> set all_categories" by (simp add: all_categories_def)
  have h2: "''pool'' \<in> set (requested (gather_subset example_params))"
    by (simp add: example_params_def requested_def all_categories_def)
  have h3: "client_pool_down (command_of ''pool'') = Inl ''timeout''"
    by (simp add: client_pool_down_def command_of_simps)
  note c = failing_query_aborts
             [of "''pool''" example_params client_pool_down "''timeout''" world0, OF h1 h2 h3]
  show ?thesis
    by (rule conjI [OF h1 conjI [OF h2 conjI [OF h3 c]]])
qed

text \<open>
  C3. In a run that ends in \<^verbatim>\<open>exit_json\<close>, the commands issued are exactly the
  commands that the table \<open>command_of\<close> gives for the requested category labels
  (vol: lsvdisk, pool: lsmdiskgrp, node: lsnode, iog: lsiogrp, host: lshost,
  hc: lshostcluster, fc: lsfabric, fcport: lsportfc, targetportfc: lstargetportfc,
  iscsiport: lsportip, fcmap: lsfcmap, fcconsistgrp: lsfcconsistgrp,
  vdiskcopy: lsvdiskcopy, array: lsarray, system: lssystem); the command of a requested
  label \<open>l\<close> is issued once, and the output field of \<open>l\<close> holds the records that the
  client returned for it, unchanged.
\<close>

theorem commands_and_pass_through:
  assumes "l \<in> set all_categories" and "l \<in> set (requested (gather_subset p))"
    and "fst (main p client w) = Inl (Exit_json r)"
  shows "\<exists>cmds. issued (snd (main p client w)) = issued w @ cmds \<and>
           set cmds = command_of ` (set all_categories \<inter> set (requested (gather_subset p))) \<and>
           count_list cmds (command_of l) = 1 \<and>
           client (command_of l) = Inr (lookup r (field_of l))"
proof -
  from assms(3) have run: "main p client w = apply_info (construct p client) w"
    by (rule main_exit_json)
  from assms(3) have none: "first_failure client (selected (gather_subset p)) = None"
    and r: "r = report_of (result_of client (requested (gather_subset p)))"
    by (simp_all add: run constructed_outcome split: option.splits prod.splits)
  from assms(1,2) have mem: "l \<in> set (selected (gather_subset p))"
    by (simp add: set_selected)
  have tr: "sent client (selected (gather_subset p)) = map command_of (selected (gather_subset p))"
    using none by (rule sent_no_failure)
  have iss: "issued (snd (main p client w)) =
             issued w @ map command_of (selected (gather_subset p))"
    by (simp only: run constructed_issued tr)
  have cmds: "set (map command_of (selected (gather_subset p))) =
              command_of ` (set all_categories \<inter> set (requested (gather_subset p)))"
    by (simp add: set_selected)
  from mem have "command_of l \<in> set (map command_of (selected (gather_subset p)))"
    by simp
  with distinct_selected_commands [of "gather_subset p"]
  have once: "count_list (map command_of (selected (gather_subset p))) (command_of l) = 1"
    by (rule count_list_distinct)
  from none mem obtain vs where vs: "client (command_of l) = Inr vs"
    by (auto simp: first_failure_None)
  from assms(1) have "lookup r (field_of l) = result_of client (requested (gather_subset p)) l"
    by (simp add: r lookup_report_of)
  with assms(2) vs have pass: "client (command_of l) = Inr (lookup r (field_of l))"
    by (simp add: result_of_def)
  show ?thesis
    by (rule exI [of _ "map command_of (selected (gather_subset p))"])
       (intro conjI iss cmds once pass)
qed

theorem commands_and_pass_through_witness:
  "''pool'' \<in> set all_categories \<and>
   ''pool'' \<in> set (requested (gather_subset example_params)) \<and>
   fst (main example_params client_ok world0) =
     Inl (Exit_json (report_of (result_of client_ok (requested (gather_subset example_params))))) \<and>
   (\<exists>cmds. issued (snd (main example_params client_ok world0)) = issued world0 @ cmds \<and>
      set cmds = command_of ` (set all_categories \<inter> set (requested (gather_subset example_params))) \<and>
      count_list cmds (command_of ''pool'') = 1 \<and>
      client_ok (command_of ''pool'') =
        Inr (lookup (report_of (result_of client_ok (requested (gather_subset example_params))))
               (field_of ''pool'')))"
proof -
  have h1: "''pool'' \<in> set all_categories" by (simp add: all_categories_def)
  have h2: "''pool'' \<in> set (requested (gather_subset example_params))"
    by (simp add: example_params_def requested_def all_categories_def)
  have h3: "fst (main example_params client_ok world0) =
     Inl (Exit_json (report_of (result_of client_ok (requested (gather_subset example_params)))))"
    by (simp add: main_accepted [OF example_accepted] constructed_outcome example_all_ok)
  note c = commands_and_pass_through
             [of "''pool''" example_params client_ok world0
                 "report_of (result_of client_ok (requested (gather_subset example_params)))",
              OF h1 h2 h3]
  show ?thesis
    by (rule conjI [OF h1 conjI [OF h2 conjI [OF h3 c]]])
qed

text \<open>
  C4. When \<^verbatim>\<open>gather_subset\<close> is a single category label \<open>l\<close> (so not \<^verbatim>\<open>'all'\<close>) and
  the query of \<open>l\<close> returns the records \<open>vs\<close>, the run ends in \<^verbatim>\<open>exit_json\<close> with a
  report whose field for \<open>l\<close> is \<open>vs\<close> and whose fourteen other fields are empty lists.
\<close>

theorem single_category_report:
  assumes "l \<in> set all_categories" and "client (command_of l) = Inr vs"
  shows "fst (apply_info (construct (p\<lparr>gather_subset := [l]\<rparr>) client) w) =
           Inl (Exit_json (map (\<lambda>f. (f, if f = field_of l then vs else [])) field_names))"
proof -
  from assms have "first_failure client (selected [l]) = None"
    by (simp add: selected_single)
  then have "fst (apply_info (construct (p\<lparr>gather_subset := [l]\<rparr>) client) w) =
               Inl (Exit_json (report_of (result_of client (requested [l]))))"
    by (simp add: constructed_subset_outcome)
  with assms show ?thesis
    by (simp only: requested_single report_single)
qed

theorem single_category_report_witness:
  "''pool'' \<in> set all_categories \<and> client_ok (command_of ''pool'') = Inr [10] \<and>
   fst (apply_info (construct (example_params\<lparr>gather_subset := [''pool'']\<rparr>) client_ok) world0) =
     Inl (Exit_json (map (\<lambda>f. (f, if f = field_of ''pool'' then [10] else [])) field_names))"
proof -
  have h1: "''pool'' \<in> set all_categories" by (simp add: all_categories_def)
  have h2: "client_ok (command_of ''pool'') = Inr [10]"
    by (simp add: client_ok_def command_of_simps)
  note c = single_category_report [of "''pool''" client_ok "[10]" example_params world0, OF h1 h2]
  show ?thesis
    by (rule conjI [OF h1 conjI [OF h2 c]])
qed

text \<open>
  C5. The message passed to \<^verbatim>\<open>fail_json\<close> is the tuple of a format string that names
  the failing category (\<open>category_phrase\<close>: Volumes, Pools, Nodes, IO Groups, Hosts,
  Host Cluster, FC Connectivity, fc ports, target port fc, iscsi ports, fc maps,
  fcconsistgrp info, vdiskcopy info, Array info, System info), the configured cluster
  name, and the text of the error. This holds for every category when it is the one
  requested and its query raises; every failure message of any run has this shape for a
  requested category whose query raised; and different categories have different phrases.
\<close>

theorem failure_message_names_category:
  "(l \<in> set all_categories \<and> client (command_of l) = Inl e \<longrightarrow>
      fst (apply_info (construct (p\<lparr>gather_subset := [l]\<rparr>) client) w) =
        Inl (Fail_json (''Get '' @ category_phrase l @ '' from array %s failed with error %s '',
                        clustername p, e))) \<and>
   (fst (apply_info (construct p client) w) = Inl (Fail_json msg) \<longrightarrow>
      (\<exists>l' e'. l' \<in> set all_categories \<and> l' \<in> set (requested (gather_subset p)) \<and>
         client (command_of l') = Inl e' \<and>
         msg = (''Get '' @ category_phrase l' @ '' from array %s failed with error %s '',
                clustername p, e'))) \<and>
   inj_on category_phrase (set all_categories)"
proof (intro conjI impI)
  assume h: "l \<in> set all_categories \<and> client (command_of l) = Inl e"
  then have "first_failure client (selected [l]) = Some (l, e)"
    by (simp add: selected_single)
  then show "fst (apply_info (construct (p\<lparr>gather_subset := [l]\<rparr>) client) w) =
        Inl (Fail_json (''Get '' @ category_phrase l @ '' from array %s failed with error %s '',
                        clustername p, e))"
    by (simp add: constructed_subset_outcome)
next
  assume f: "fst (apply_info (construct p client) w) = Inl (Fail_json msg)"
  then obtain l' e' where ff: "first_failure client (selected (gather_subset p)) = Some (l', e')"
    and msg: "msg = (''Get '' @ category_phrase l' @ '' from array %s failed with error %s '',
                clustername p, e')"
    by (auto simp: constructed_outcome split: option.splits)
  from first_failure_Some [OF ff] have "l' \<in> set (selected (gather_subset p))"
    and bad: "client (command_of l') = Inl e'"
    by auto
  then have "l' \<in> set all_categories" "l' \<in> set (requested (gather_subset p))"
    by (simp_all add: set_selected)
  with bad msg show "\<exists>l' e'. l' \<in> set all_categories \<and> l' \<in> set (requested (gather_subset p)) \<and>
         client (command_of l') = Inl e' \<and>
         msg = (''Get '' @ category_phrase l' @ '' from array %s failed with error %s '',
                clustername p, e')"
    by blast
next
  show "inj_on category_phrase (set all_categories)"
    using distinct_phrases by (simp add: distinct_map)
qed

theorem failure_message_names_category_witness:
  "''pool'' \<in> set all_categories \<and>
   client_pool_down (command_of ''pool'') = Inl ''timeout'' \<and>
   fst (apply_info (construct (example_params\<lparr>gather_subset := [''pool'']\<rparr>) client_pool_down) world0) =
     Inl (Fail_json (''Get Pools from array %s failed with error %s '', ''cluster1'', ''timeout'')) \<and>
   fst (apply_info (construct example_params client_pool_down) world0) =
     Inl (Fail_json (''Get Pools from array %s failed with error %s '', ''cluster1'', ''timeout'')) \<and>
   (\<exists>l' e'. l' \<in> set all_categories \<and> l' \<in> set (requested (gather_subset example_params)) \<and>
      client_pool_down (command_of l') = Inl e' \<and>
      (''Get Pools from array %s failed with error %s '', ''cluster1'', ''timeout'') =
        (''Get '' @ category_phrase l' @ '' from array %s failed with error %s '',
         clustername example_params, e'))"
proof -
  note c = failure_message_names_category
             [where l = "''pool''" and client = client_pool_down and e = "''timeout''"
                and p = example_params and w = world0
                and msg = "(''Get Pools from array %s failed with error %s '', ''cluster1'', ''timeout'')"]
  have h1: "''pool'' \<in> set all_categories" by (simp add: all_categories_def)
  have h2: "client_pool_down (command_of ''pool'') = Inl ''timeout''"
    by (simp add: client_pool_down_def command_of_simps)
  from c h1 h2
  have "fst (apply_info (construct (example_params\<lparr>gather_subset := [''pool'']\<rparr>) client_pool_down) world0) =
     Inl (Fail_json (''Get '' @ category_phrase ''pool'' @ '' from array %s failed with error %s '',
                     clustername example_params, ''timeout''))"
    by blast
  then have a: "fst (apply_info (construct (example_params\<lparr>gather_subset := [''pool'']\<rparr>) client_pool_down) world0) =
     Inl (Fail_json (''Get Pools from array %s failed with error %s '', ''cluster1'', ''timeout''))"
    by (simp add: category_phrase_simps example_params_def)
  have "first_failure client_pool_down query_order = Some (''pool'', ''timeout'')"
    by (simp add: query_order_def command_of_simps client_pool_down_def)
  then have h3: "fst (apply_info (construct example_params client_pool_down) world0) =
     Inl (Fail_json (''Get Pools from array %s failed with error %s '', ''cluster1'', ''timeout''))"
    by (simp add: constructed_outcome example_params_def selected_all category_phrase_simps)
  from c h3
  have b: "\<exists>l' e'. l' \<in> set all_categories \<and> l' \<in> set (requested (gather_subset example_params)) \<and>
      client_pool_down (command_of l') = Inl e' \<and>
      (''Get Pools from array %s failed with error %s '', ''cluster1'', ''timeout'') =
        (''Get '' @ category_phrase l' @ '' from array %s failed with error %s '',
         clustername example_params, e')"
    by blast
  show ?thesis
    by (rule conjI [OF h1 conjI [OF h2 conjI [OF a conjI [OF h3 b]]]])
qed

text \<open>
  C6. Every run that ends in \<^verbatim>\<open>exit_json\<close> reports exactly the fifteen fields
  Volumes, Pools, Nodes, IOGroup, Hosts, HostClusters, FCConnectivity, FCConsistgrp,
  VdiskCopy, FCPorts, TargetPortFC, iSCSIPorts, FCMaps, Array and System, each once and
  each bound to a list of records, whatever \<^verbatim>\<open>gather_subset\<close> is.
\<close>

theorem report_has_the_fifteen_fields:
  "fst (main p client w) = Inl (Exit_json r) \<Longrightarrow>
   map fst r = field_names \<and> distinct (map fst r) \<and> length r = 15"
proof -
  assume ok: "fst (main p client w) = Inl (Exit_json r)"
  then have run: "main p client w = apply_info (construct p client) w"
    by (rule main_exit_json)
  from ok have r: "r = report_of (result_of client (requested (gather_subset p)))"
    by (simp add: run constructed_outcome split: option.splits prod.splits)
  have names: "map fst r = field_names"
    by (simp add: r map_fst_report_of)
  have "distinct field_names" "length field_names = 15"
    by (simp_all add: field_names_def)
  with names have "distinct (map fst r)" "length (map fst r) = 15"
    by simp_all
  then have "distinct (map fst r)" "length r = 15"
    by simp_all
  with names show ?thesis by simp
qed

theorem report_has_the_fifteen_fields_witness:
  "fst (main example_params client_ok world0) =
     Inl (Exit_json (report_of (result_of client_ok (requested (gather_subset example_params))))) \<and>
   map fst (report_of (result_of client_ok (requested (gather_subset example_params)))) = field_names \<and>
   distinct (map fst (report_of (result_of client_ok (requested (gather_subset example_params))))) \<and>
   length (report_of (result_of client_ok (requested (gather_subset example_params)))) = 15"
proof -
  have ok: "fst (main example_params client_ok world0) =
     Inl (Exit_json (report_of (result_of client_ok (requested (gather_subset example_params)))))"
    by (simp add: main_accepted [OF example_accepted] constructed_outcome example_all_ok)
  from report_has_the_fifteen_fields [OF ok] ok show ?thesis by blast
qed

text \<open>
  C7, as the code has it. The commands of a run are those of the requested categories in
  the order in which \<^verbatim>\<open>apply\<close> tests the labels (\<open>query_order\<close>: vol, pool, node, iog,
  host, hc, fc, targetportfc, fcport, iscsiport, fcmap, fcconsistgrp, vdiskcopy, array,
  system), one after the other, up to and including the first one that fails. When
  \<^verbatim>\<open>'all'\<close> or an empty subset is requested and no query fails, all fifteen commands are
  issued in that order.
\<close>

theorem queries_in_test_order:
  "issued (snd (apply_info (construct p client) w)) =
     issued w @ sent client (filter (\<lambda>l. l \<in> set (requested (gather_subset p))) query_order) \<and>
   ((gather_subset p = [] \<or> ''all'' \<in> set (gather_subset p)) \<and>
    (\<forall>l \<in> set all_categories. \<exists>vs. client (command_of l) = Inr vs) \<longrightarrow>
    issued (snd (apply_info (construct p client) w)) =
      issued w @
      [''lsvdisk'', ''lsmdiskgrp'', ''lsnode'', ''lsiogrp'', ''lshost'', ''lshostcluster'',
       ''lsfabric'', ''lstargetportfc'', ''lsportfc'', ''lsportip'', ''lsfcmap'',
       ''lsfcconsistgrp'', ''lsvdiskcopy'', ''lsarray'', ''lssystem''])"
proof (intro conjI impI)
  show "issued (snd (apply_info (construct p client) w)) =
     issued w @ sent client (filter (\<lambda>l. l \<in> set (requested (gather_subset p))) query_order)"
    by (simp add: constructed_issued selected_def)
next
  assume h: "(gather_subset p = [] \<or> ''all'' \<in> set (gather_subset p)) \<and>
    (\<forall>l \<in> set all_categories. \<exists>vs. client (command_of l) = Inr vs)"
  then have req: "requested (gather_subset p) = all_categories"
    by (auto simp: requested_def)
  have sel: "selected (gather_subset p) = query_order"
    by (simp add: selected_def req set_query_order [symmetric])
  from h have "first_failure client query_order = None"
    by (simp add: first_failure_None set_query_order)
  then have "sent client query_order = map command_of query_order"
    by (rule sent_no_failure)
  then have "issued (snd (apply_info (construct p client) w)) = issued w @ map command_of query_order"
    by (simp add: constructed_issued sel)
  then show "issued (snd (apply_info (construct p client) w)) =
      issued w @
      [''lsvdisk'', ''lsmdiskgrp'', ''lsnode'', ''lsiogrp'', ''lshost'', ''lshostcluster'',
       ''lsfabric'', ''lstargetportfc'', ''lsportfc'', ''lsportip'', ''lsfcmap'',
       ''lsfcconsistgrp'', ''lsvdiskcopy'', ''lsarray'', ''lssystem'']"
    by (simp add: query_order_def command_of_simps)
qed

theorem queries_in_test_order_witness:
  "(gather_subset example_params = [] \<or> ''all'' \<in> set (gather_subset example_params)) \<and>
   client_ok (command_of ''vol'') = Inr [7] \<and>
   issued (snd (apply_info (construct example_params client_ok) world0)) =
      issued world0 @
      sent client_ok
        (filter (\<lambda>l. l \<in> set (requested (gather_subset example_params))) query_order) \<and>
   issued (snd (apply_info (construct example_params client_ok) world0)) =
      issued world0 @
      [''lsvdisk'', ''lsmdiskgrp'', ''lsnode'', ''lsiogrp'', ''lshost'', ''lshostcluster'',
       ''lsfabric'', ''lstargetportfc'', ''lsportfc'', ''lsportip'', ''lsfcmap'',
       ''lsfcconsistgrp'', ''lsvdiskcopy'', ''lsarray'', ''lssystem'']"
proof -
  have h1: "gather_subset example_params = [] \<or> ''all'' \<in> set (gather_subset example_params)"
    by (simp add: example_params_def)
  have h2: "\<forall>l \<in> set all_categories. \<exists>vs. client_ok (command_of l) = Inr vs"
    by (simp add: client_ok_def)
  have h3: "client_ok (command_of ''vol'') = Inr [7]"
    by (simp add: client_ok_def command_of_simps)
  note c = queries_in_test_order [of example_params client_ok world0]
  from c have a: "issued (snd (apply_info (construct example_params client_ok) world0)) =
      issued world0 @
      sent client_ok
        (filter (\<lambda>l. l \<in> set (requested (gather_subset example_params))) query_order)"
    by (rule conjunct1)
  from c h1 h2 have b: "issued (snd (apply_info (construct example_params client_ok) world0)) =
      issued world0 @
      [''lsvdisk'', ''lsmdiskgrp'', ''lsnode'', ''lsiogrp'', ''lshost'', ''lshostcluster'',
       ''lsfabric'', ''lstargetportfc'', ''lsportfc'', ''lsportip'', ''lsfcmap'',
       ''lsfcconsistgrp'', ''lsvdiskcopy'', ''lsarray'', ''lssystem'']"
    by blast
  show ?thesis
    by (rule conjI [OF h1 conjI [OF h3 conjI [OF a b]]])
qed

text \<open>
  C7, as stated, fails: with \<^verbatim>\<open>gather_subset = ['all']\<close> and a client that answers
  every command, \<^verbatim>\<open>lstargetportfc\<close> is issued eighth, right after \<^verbatim>\<open>lsfabric\<close>, and
  not thirteenth as the order of the expansion list would have it.
\<close>

theorem query_order_counterexample:
  "issued (snd (apply_info (construct example_params client_ok) world0)) =
     [''lsvdisk'', ''lsmdiskgrp'', ''lsnode'', ''lsiogrp'', ''lshost'', ''lshostcluster'',
      ''lsfabric'', ''lstargetportfc'', ''lsportfc'', ''lsportip'', ''lsfcmap'',
      ''lsfcconsistgrp'', ''lsvdiskcopy'', ''lsarray'', ''lssystem''] \<and>
   issued (snd (apply_info (construct example_params client_ok) world0)) \<noteq> map command_of all_categories"
proof -
  have "issued (snd (apply_info (construct example_params client_ok) world0)) = map command_of query_order"
    by (simp add: constructed_issued sent_no_failure [OF example_all_ok])
       (simp add: example_params_def selected_all world0_def)
  then show ?thesis
    by (simp add: query_order_def all_categories_def command_of_simps)
qed

text \<open>
  C8. In one run no command is sent to the REST client twice: the commands issued by
  \<^verbatim>\<open>main\<close> are pairwise different, whether their queries succeed or fail. Nothing is
  retried.
\<close>

theorem each_command_at_most_once:
  "\<exists>cmds. issued (snd (main p client w)) = issued w @ cmds \<and> distinct cmds"
proof -
  obtain n where "sent client (selected (gather_subset p)) =
      take n (map command_of (selected (gather_subset p)))"
    using sent_take by blast
  then have d: "distinct (sent client (selected (gather_subset p)))"
    by (simp add: distinct_selected_commands)
  show ?thesis
  proof (cases "rejected_arguments p = []")
    case True
    with d show ?thesis by (simp add: main_accepted constructed_issued)
  next
    case False
    then show ?thesis by (simp add: main_def init_def)
  qed
qed

text \<open>
  C9. The whole result of a run, that is the outcome, the commands issued and the log,
  depends on \<^verbatim>\<open>gather_subset\<close> only through its set of labels: two lists with the same
  set give the same result, and a list containing \<^verbatim>\<open>'all'\<close> anywhere gives the result
  of \<^verbatim>\<open>['all']\<close>.
\<close>

theorem report_depends_on_label_set:
  "(set a = set b \<longrightarrow>
      apply_info (construct (p\<lparr>gather_subset := a\<rparr>) client) w = apply_info (construct (p\<lparr>gather_subset := b\<rparr>) client) w) \<and>
   (''all'' \<in> set a \<longrightarrow>
      apply_info (construct (p\<lparr>gather_subset := a\<rparr>) client) w = apply_info (construct (p\<lparr>gather_subset := [''all'']\<rparr>) client) w)"
proof (intro conjI impI)
  assume eq: "set a = set b"
  then have "(a = []) = (b = [])" by (metis set_empty)
  moreover from eq have "(''all'' \<in> set a) = (''all'' \<in> set b)" by simp
  moreover have "run_steps (requested a) (dispatch (construct p client)) =
                 run_steps (requested b) (dispatch (construct p client))"
    by (rule run_steps_cong) (rule requested_cong [OF eq])
  ultimately show "apply_info (construct (p\<lparr>gather_subset := a\<rparr>) client) w = apply_info (construct (p\<lparr>gather_subset := b\<rparr>) client) w"
    by (simp only: constructed_steps)
next
  assume "''all'' \<in> set a"
  then show "apply_info (construct (p\<lparr>gather_subset := a\<rparr>) client) w = apply_info (construct (p\<lparr>gather_subset := [''all'']\<rparr>) client) w"
    by (simp add: constructed_steps requested_all)
qed

theorem report_depends_on_label_set_witness:
  "set [''pool'', ''vol'', ''pool''] = set [''vol'', ''pool''] \<and>
   apply_info (construct (example_params\<lparr>gather_subset := [''pool'', ''vol'', ''pool'']\<rparr>) client_ok) world0 =
   apply_info (construct (example_params\<lparr>gather_subset := [''vol'', ''pool'']\<rparr>) client_ok) world0 \<and>
   ''all'' \<in> set [''node'', ''all''] \<and>
   apply_info (construct (example_params\<lparr>gather_subset := [''node'', ''all'']\<rparr>) client_ok) world0 =
   apply_info (construct (example_params\<lparr>gather_subset := [''all'']\<rparr>) client_ok) world0"
proof -
  have h1: "set [''pool'', ''vol'', ''pool''] = set [''vol'', ''pool'']" by auto
  have h2: "''all'' \<in> set [''node'', ''all'']" by simp
  from report_depends_on_label_set
         [of "[''pool'', ''vol'', ''pool'']" "[''vol'', ''pool'']" example_params client_ok world0] h1
  have c1: "apply_info (construct (example_params\<lparr>gather_subset := [''pool'', ''vol'', ''pool'']\<rparr>) client_ok) world0 =
            apply_info (construct (example_params\<lparr>gather_subset := [''vol'', ''pool'']\<rparr>) client_ok) world0"
    by blast
  from report_depends_on_label_set
         [of "[''node'', ''all'']" "[]" example_params client_ok world0] h2
  have c2: "apply_info (construct (example_params\<lparr>gather_subset := [''node'', ''all'']\<rparr>) client_ok) world0 =
            apply_info (construct (example_params\<lparr>gather_subset := [''all'']\<rparr>) client_ok) world0"
    by blast
  from h1 h2 c1 c2 show ?thesis by blast
qed

text \<open>
  C10, as the code has it. \<^verbatim>\<open>name\<close> has no effect on a run: changing it changes
  neither the outcome (report or failure message) nor the commands issued nor the log.
  \<^verbatim>\<open>state\<close> has no effect among the values that the argument specification accepts,
  of which there is one, \<^verbatim>\<open>'info'\<close>; \<^verbatim>\<open>apply\<close> never reads either parameter. Any other
  value of \<^verbatim>\<open>state\<close> is rejected when the object is built: the run fails naming the
  parameter \<^verbatim>\<open>state\<close>, before any query and before anything is logged.
\<close>

theorem name_ignored_state_checked:
  "main (p\<lparr>name := n\<rparr>) client w = main p client w \<and>
   (state p \<in> set state_choices \<and> s \<in> set state_choices \<longrightarrow>
      main (p\<lparr>name := n, state := s\<rparr>) client w = main p client w) \<and>
   apply_info (construct (p\<lparr>name := n, state := s\<rparr>) client) w =
     apply_info (construct p client) w \<and>
   (s \<notin> set state_choices \<longrightarrow>
      (\<exists>bad. main (p\<lparr>state := s\<rparr>) client w = (Inl (Fail_arguments bad), w) \<and>
             ''state'' \<in> set bad))"
proof (intro conjI impI)
  show "main (p\<lparr>name := n\<rparr>) client w = main p client w"
    by (simp add: main_def init_def rejected_name apply_name)
next
  assume "state p \<in> set state_choices \<and> s \<in> set state_choices"
  then have "s = state p" by (simp add: state_choices_def)
  then have "rejected_arguments (p\<lparr>name := n, state := s\<rparr>) = rejected_arguments p"
    by (simp add: rejected_arguments_def)
  then show "main (p\<lparr>name := n, state := s\<rparr>) client w = main p client w"
    by (simp add: main_def init_def apply_name_state)
next
  show "apply_info (construct (p\<lparr>name := n, state := s\<rparr>) client) w =
        apply_info (construct p client) w"
    by (rule apply_name_state)
next
  assume "s \<notin> set state_choices"
  then have "main (p\<lparr>state := s\<rparr>) client w =
               (Inl (Fail_arguments (rejected_arguments (p\<lparr>state := s\<rparr>))), w)"
    and "''state'' \<in> set (rejected_arguments (p\<lparr>state := s\<rparr>))"
    by (simp_all add: main_def init_def rejected_arguments_def)
  then show "\<exists>bad. main (p\<lparr>state := s\<rparr>) client w = (Inl (Fail_arguments bad), w) \<and>
                   ''state'' \<in> set bad"
    by blast
qed

theorem name_ignored_state_checked_witness:
  "main (example_params\<lparr>name := ''other''\<rparr>) client_ok world0 =
     main example_params client_ok world0 \<and>
   state example_params \<in> set state_choices \<and> ''info'' \<in> set state_choices \<and>
   main (example_params\<lparr>name := ''other'', state := ''info''\<rparr>) client_ok world0 =
     main example_params client_ok world0 \<and>
   ''present'' \<notin> set state_choices \<and>
   (\<exists>bad. main (example_params\<lparr>state := ''present''\<rparr>) client_ok world0 =
            (Inl (Fail_arguments bad), world0) \<and>
          ''state'' \<in> set bad)"
proof -
  note c1 = name_ignored_state_checked
              [where p = example_params and n = "''other''" and client = client_ok
                 and w = world0 and s = "''info''"]
  note c2 = name_ignored_state_checked
              [where p = example_params and n = "''other''" and client = client_ok
                 and w = world0 and s = "''present''"]
  have h1: "state example_params \<in> set state_choices"
    by (simp add: example_params_def state_choices_def)
  have h2: "''info'' \<in> set state_choices" by (simp add: state_choices_def)
  have h3: "''present'' \<notin> set state_choices" by (simp add: state_choices_def)
  from c1 have a: "main (example_params\<lparr>name := ''other''\<rparr>) client_ok world0 =
     main example_params client_ok world0"
    by (rule conjunct1)
  from c1 h1 h2 have b: "main (example_params\<lparr>name := ''other'', state := ''info''\<rparr>) client_ok world0 =
     main example_params client_ok world0"
    by blast
  from c2 h3 have d: "\<exists>bad. main (example_params\<lparr>state := ''present''\<rparr>) client_ok world0 =
            (Inl (Fail_arguments bad), world0) \<and> ''state'' \<in> set bad"
    by blast
  show ?thesis
    by (rule conjI [OF a conjI [OF h1 conjI [OF h2 conjI [OF b conjI [OF h3 d]]]]])
qed

text \<open>
  C10, as stated, fails for \<^verbatim>\<open>state\<close>: two runs that differ only in \<^verbatim>\<open>state\<close>, with
  the same client, do not end alike. With \<^verbatim>\<open>state = 'present'\<close> the arguments are
  rejected and nothing is queried; with \<^verbatim>\<open>state = 'info'\<close> the fifteen commands are
  issued and a report is returned.
\<close>

theorem state_counterexample:
  "main (example_params\<lparr>state := ''present''\<rparr>) client_ok world0 =
     (Inl (Fail_arguments [''state'']), world0) \<and>
   fst (main example_params client_ok world0) =
     Inl (Exit_json (report_of (result_of client_ok all_categories))) \<and>
   issued (snd (main example_params client_ok world0)) =
     [''lsvdisk'', ''lsmdiskgrp'', ''lsnode'', ''lsiogrp'', ''lshost'', ''lshostcluster'',
      ''lsfabric'', ''lstargetportfc'', ''lsportfc'', ''lsportip'', ''lsfcmap'',
      ''lsfcconsistgrp'', ''lsvdiskcopy'', ''lsarray'', ''lssystem''] \<and>
   main (example_params\<lparr>state := ''present''\<rparr>) client_ok world0 \<noteq>
     main example_params client_ok world0"
proof -
  have bad: "main (example_params\<lparr>state := ''present''\<rparr>) client_ok world0 =
     (Inl (Fail_arguments [''state'']), world0)"
    by (simp add: main_def init_def rejected_arguments_def example_params_def
          state_choices_def gather_subset_choices_def)
  have run: "main example_params client_ok world0 =
             apply_info (construct example_params client_ok) world0"
    by (rule main_accepted [OF example_accepted])
  have good: "fst (main example_params client_ok world0) =
     Inl (Exit_json (report_of (result_of client_ok all_categories)))"
    by (simp add: run constructed_outcome example_all_ok)
       (simp add: example_params_def requested_def)
  have "issued (snd (main example_params client_ok world0)) = map command_of query_order"
    by (simp add: run constructed_issued sent_no_failure [OF example_all_ok])
       (simp add: example_params_def selected_all world0_def)
  then have trace: "issued (snd (main example_params client_ok world0)) =
     [''lsvdisk'', ''lsmdiskgrp'', ''lsnode'', ''lsiogrp'', ''lshost'', ''lshostcluster'',
      ''lsfabric'', ''lstargetportfc'', ''lsportfc'', ''lsportip'', ''lsfcmap'',
      ''lsfcconsistgrp'', ''lsvdiskcopy'', ''lsarray'', ''lssystem'']"
    by (simp add: query_order_def command_of_simps)
  from bad good have "fst (main (example_params\<lparr>state := ''present''\<rparr>) client_ok world0) \<noteq>
     fst (main example_params client_ok world0)"
    by simp
  then have diff: "main (example_params\<lparr>state := ''present''\<rparr>) client_ok world0 \<noteq>
     main example_params client_ok world0"
    by auto
  show ?thesis
    by (rule conjI [OF bad conjI [OF good conjI [OF trace diff]]])
qed

end
